theory Spec2Isabelle
  imports Main
begin

section \<open>Python values, errors and indexing\<close>

text \<open>
  The exceptions that \<^verbatim>\<open>pelita/player/base2.py\<close> raises, or that the Python
  operations it uses raise. The string carried by an exception is its message; for
  \<open>AttributeError\<close> it is the name of the attribute that was looked up.
\<close>

datatype error =
    ValueError string
  | TypeError string
  | AttributeError string
  | IndexError
  | KeyError string
  | IllegalMoveException
  | Exception string

text \<open>
  A value handed to \<^verbatim>\<open>SimpleTeam(*args)\<close>: a string, or a reference to an
  object. References to \<^verbatim>\<open>Player2\<close> instances are addresses in the player store.
\<close>

datatype pyval = Str string | Ref nat

text \<open>
  Python's \<^verbatim>\<open>xs[i]\<close>: a negative index counts from the end, and an index outside
  the list raises \<open>IndexError\<close>.
\<close>

definition py_index :: "'a list \<Rightarrow> int \<Rightarrow> error + 'a" where
  "py_index xs i =
     (if 0 \<le> i \<and> i < int (length xs) then Inr (xs ! nat i)
      else if i < 0 \<and> - int (length xs) \<le> i then Inr (xs ! nat (int (length xs) + i))
      else Inl IndexError)"

text \<open>The decimal digits of a number, as \<^verbatim>\<open>%d\<close> prints it.\<close>

fun show_nat :: "nat \<Rightarrow> string" where
  "show_nat n =
     (if n < 10 then [''0123456789'' ! n]
      else show_nat (n div 10) @ [''0123456789'' ! (n mod 10)])"

declare show_nat.simps [simp del]

text \<open>
  Modelled from the spec: the five direction values of the absent \<^verbatim>\<open>datamodel\<close>
  module, which the source only names (\<^verbatim>\<open>datamodel.north\<close>, ...).
\<close>

datatype move = north | south | west | east | stop

type_synonym pos = "int \<times> int"

text \<open>
  The game state dictionary, with the two keys that the source reads:
  \<^verbatim>\<open>game_state.get("seed")\<close> and \<^verbatim>\<open>current_state["team_name"]\<close>.
  \<open>seed = None\<close> stands for a missing key and for the value \<^verbatim>\<open>None\<close> alike
  (the source tests \<^verbatim>\<open>game_state.get("seed") is not None\<close>).
\<close>

record game_state =
  seed :: "int option"
  gs_team_name :: "(int \<times> string) list"

section \<open>The agent session: class \<^verbatim>\<open>Player2\<close>\<close>

text \<open>
  \<^verbatim>\<open>self._store_universe\<close> holds one of the two bound methods
  \<^verbatim>\<open>_store_universe_copy\<close> and \<^verbatim>\<open>_store_universe_ref\<close>.
\<close>

datatype policy = by_copy | by_ref

text \<open>
  \<^verbatim>\<open>random.Random()\<close> is seeded from the operating system until
  \<^verbatim>\<open>seed(n)\<close> is called; what is recorded is the argument of that call.
\<close>

datatype rng = Unseeded | Seeded int

text \<open>
  The attributes of a \<^verbatim>\<open>Player2\<close> object. A Python attribute does not exist
  until it is assigned, so every attribute is an option and \<open>None\<close> means that reading
  it raises \<open>AttributeError\<close>. A leading underscore of the source is written \<open>p_\<close>.
  Universes are objects: the history \<open>universe_states\<close> is a list of addresses in the
  universe store. \<open>own\<close> holds the attributes that a concrete subclass adds.
  The private time marker of line 237 is read by \<^verbatim>\<open>time_spent\<close> only and is left out.
\<close>

record 'x Player2 =
  p_index :: "int option"
  p_remote_game :: "bool option"
  seed_offset :: "int option"
  p_store_universe :: "policy option"
  p_current_state :: "game_state option"
  universe_states :: "nat list option"
  rnd :: "rng option"
  p_say :: "string option"
  own :: 'x

text \<open>An object on which no method has run yet.\<close>

definition new_Player2 :: "'x \<Rightarrow> 'x Player2" where
  "new_Player2 x =
     \<lparr>p_index = None, p_remote_game = None, seed_offset = None, p_store_universe = None,
      p_current_state = None, universe_states = None, rnd = None, p_say = None, own = x\<rparr>"

text \<open>
  The methods that a concrete subclass supplies. \<^verbatim>\<open>set_initial\<close> and
  \<^verbatim>\<open>get_move\<close> are called by the base class; they see the session and the universe
  store, and hand back the exception they raised if any, the subclass attributes as they
  leave them and, for \<^verbatim>\<open>get_move\<close>, the result and the attribute \<^verbatim>\<open>_say\<close>
  (assigned by \<^verbatim>\<open>say\<close>). The attributes that the base class keeps for itself are
  not theirs to assign. \<open>copy\<close> is \<open>None\<close> for a class that defines no method
  \<^verbatim>\<open>copy\<close>; a class that defines one returns a new object from it.
\<close>

record ('x, 'u, 'm) methods =
  set_initial :: "'x Player2 \<Rightarrow> 'u list \<Rightarrow> error option \<times> 'x"
  get_move :: "'x Player2 \<Rightarrow> 'u list \<Rightarrow> (error + 'm) \<times> 'x \<times> string option"
  copy :: "('x Player2 \<Rightarrow> 'x Player2) option"

text \<open>
  The part of the absent \<^verbatim>\<open>datamodel\<close> classes that the source reads: a universe has
  a sequence \<^verbatim>\<open>bots\<close>, a bot has \<^verbatim>\<open>index\<close>, \<^verbatim>\<open>current_pos\<close> and
  \<^verbatim>\<open>initial_pos\<close>. Whatever else they hold is the extension of the record.
\<close>

record bot =
  index :: int
  current_pos :: pos
  initial_pos :: pos

record universe =
  bots :: "bot list"

text \<open>
  Modelled from the spec: \<^verbatim>\<open>copy()\<close> of the absent universe class returns an
  independent snapshot, a new object with the content of the old one. The universe store
  is a list, an address is a position in it, and a new object goes to its end.
\<close>

definition universe_copy :: "'u list \<Rightarrow> nat \<Rightarrow> 'u list \<times> nat" where
  "universe_copy uh u = (uh @ [uh ! u], length uh)"

definition Player2__set_index :: "'x Player2 \<Rightarrow> int \<Rightarrow> 'x Player2" where
  "Player2__set_index self i = self\<lparr>p_index := Some i\<rparr>"

text \<open>
  The two ways to store a universe. \<^verbatim>\<open>self.universe_states.append\<close> is looked up
  before the argument is evaluated.
\<close>

definition Player2__store_universe_copy ::
  "'x Player2 \<Rightarrow> 'u list \<Rightarrow> nat \<Rightarrow> error option \<times> 'x Player2 \<times> 'u list" where
  "Player2__store_universe_copy self uh u =
     (case universe_states self of
        None \<Rightarrow> (Some (AttributeError ''universe_states''), self, uh)
      | Some us \<Rightarrow>
          (case universe_copy uh u of
             (uh', c) \<Rightarrow> (None, self\<lparr>universe_states := Some (us @ [c])\<rparr>, uh')))"

definition Player2__store_universe_ref ::
  "'x Player2 \<Rightarrow> 'u list \<Rightarrow> nat \<Rightarrow> error option \<times> 'x Player2 \<times> 'u list" where
  "Player2__store_universe_ref self uh u =
     (case universe_states self of
        None \<Rightarrow> (Some (AttributeError ''universe_states''), self, uh)
      | Some us \<Rightarrow> (None, self\<lparr>universe_states := Some (us @ [u])\<rparr>, uh))"

text \<open>The call \<^verbatim>\<open>self._store_universe(universe)\<close> of the method chosen at initialisation.\<close>

definition Player2__store_universe ::
  "'x Player2 \<Rightarrow> 'u list \<Rightarrow> nat \<Rightarrow> error option \<times> 'x Player2 \<times> 'u list" where
  "Player2__store_universe self uh u =
     (case p_store_universe self of
        None \<Rightarrow> (Some (AttributeError ''_store_universe''), self, uh)
      | Some by_copy \<Rightarrow> Player2__store_universe_copy self uh u
      | Some by_ref \<Rightarrow> Player2__store_universe_ref self uh u)"

text \<open>
  \<^verbatim>\<open>Player2._set_initial(self, universe, game_state)\<close>. The default of
  \<^verbatim>\<open>getattr(self, "seed_offset", self._index)\<close> is evaluated whether or not it is
  used. The result is the exception raised, if any, with the session and the universe
  store as the call leaves them.
\<close>

definition Player2__set_initial ::
  "('x, 'u, 'm) methods \<Rightarrow> 'x Player2 \<Rightarrow> 'u list \<Rightarrow> nat \<Rightarrow> game_state \<Rightarrow>
     error option \<times> 'x Player2 \<times> 'u list" where
  "Player2__set_initial cls self uh u game_state =
     (let s1 = self\<lparr>p_store_universe :=
                      Some (if p_remote_game self = Some True then by_ref else by_copy)\<rparr>;
          s2 = s1\<lparr>p_current_state := Some game_state, universe_states := Some []\<rparr>
      in case Player2__store_universe s2 uh u of
           (Some e, s3, uh3) \<Rightarrow> (Some e, s3, uh3)
         | (None, s3, uh3) \<Rightarrow>
             (case p_index s3 of
                None \<Rightarrow> (Some (AttributeError ''_index''), s3, uh3)
              | Some i \<Rightarrow>
                  (let off = (case seed_offset s3 of None \<Rightarrow> i | Some k \<Rightarrow> k);
                       s4 = s3\<lparr>rnd := Some Unseeded\<rparr>;
                       s5 = (case seed game_state of
                               None \<Rightarrow> s4
                             | Some n \<Rightarrow> s4\<lparr>rnd := Some (Seeded (n + off))\<rparr>)
                   in case set_initial cls s5 uh3 of
                        (e, x) \<Rightarrow> (e, s5\<lparr>own := x\<rparr>, uh3))))"

text \<open>\<^verbatim>\<open>Player2.set_initial\<close>, the method that subclasses may override: \<^verbatim>\<open>pass\<close>.\<close>

definition Player2_set_initial :: "'x Player2 \<Rightarrow> 'u list \<Rightarrow> error option \<times> 'x" where
  "Player2_set_initial self uh = (None, own self)"

text \<open>
  \<^verbatim>\<open>Player2._get_move(self, universe, game_state)\<close>. The dictionary it returns is
  the pair of its \<^verbatim>\<open>move\<close> and its \<^verbatim>\<open>say\<close>.
\<close>

definition Player2__get_move ::
  "('x, 'u, 'm) methods \<Rightarrow> 'x Player2 \<Rightarrow> 'u list \<Rightarrow> nat \<Rightarrow> game_state \<Rightarrow>
     (error + 'm \<times> string) \<times> 'x Player2 \<times> 'u list" where
  "Player2__get_move cls self uh u game_state =
     (let s1 = self\<lparr>p_current_state := Some game_state\<rparr>
      in case Player2__store_universe s1 uh u of
           (Some e, s2, uh2) \<Rightarrow> (Inl e, s2, uh2)
         | (None, s2, uh2) \<Rightarrow>
             (let s3 = s2\<lparr>p_say := Some []\<rparr>
              in case get_move cls s3 uh2 of
                   (r, x, sy) \<Rightarrow>
                     (let s4 = s3\<lparr>own := x, p_say := sy\<rparr>
                      in case r of
                           Inl e \<Rightarrow> (Inl e, s4, uh2)
                         | Inr m \<Rightarrow>
                             (case sy of
                                None \<Rightarrow> (Inl (AttributeError ''_say''), s4, uh2)
                              | Some t \<Rightarrow> (Inr (m, t), s4, uh2)))))"

text \<open>The property \<^verbatim>\<open>_current_uni\<close>: \<^verbatim>\<open>self.universe_states[-1]\<close>.\<close>

definition Player2__current_uni :: "'x Player2 \<Rightarrow> error + nat" where
  "Player2__current_uni self =
     (case universe_states self of
        None \<Rightarrow> Inl (AttributeError ''universe_states'')
      | Some us \<Rightarrow> py_index us (- 1))"

definition Player2_current_state :: "'x Player2 \<Rightarrow> error + game_state" where
  "Player2_current_state self =
     (case p_current_state self of
        None \<Rightarrow> Inl (AttributeError ''_current_state'')
      | Some g \<Rightarrow> Inr g)"

text \<open>\<^verbatim>\<open>u.bots[self._index].current_pos\<close> for the universe object at address \<open>u\<close>.\<close>

definition bot_pos :: "'x Player2 \<Rightarrow> 'a universe_scheme list \<Rightarrow> nat \<Rightarrow> error + pos" where
  "bot_pos self uh u =
     (case p_index self of
        None \<Rightarrow> Inl (AttributeError ''_index'')
      | Some i \<Rightarrow>
          (case py_index (bots (uh ! u)) i of
             Inl e \<Rightarrow> Inl e
           | Inr b \<Rightarrow> Inr (current_pos b)))"

definition Player2_current_pos :: "'x Player2 \<Rightarrow> 'a universe_scheme list \<Rightarrow> error + pos" where
  "Player2_current_pos self uh =
     (case Player2__current_uni self of
        Inl e \<Rightarrow> Inl e
      | Inr u \<Rightarrow> bot_pos self uh u)"


text \<open>
  \<^verbatim>\<open>Player2.simulate_move(self, move)\<close>, lines 485 to 490. \<open>move_bot\<close> is the
  method of the absent universe class: it changes the universe in place and returns the
  new game state, or raises. The session \<open>self\<close> is not assigned to; the result is the
  new session, or the exception, and the universe store.
\<close>

definition Player2_simulate_move ::
  "('x, 'u, 'm) methods \<Rightarrow> ('u \<Rightarrow> int \<Rightarrow> move \<Rightarrow> error + 'u \<times> game_state) \<Rightarrow>
     'x Player2 \<Rightarrow> 'u list \<Rightarrow> move \<Rightarrow> (error + 'x Player2) \<times> 'u list" where
  "Player2_simulate_move cls move_bot self uh mv =
     (case Player2__current_uni self of
        Inl e \<Rightarrow> (Inl e, uh)
      | Inr u \<Rightarrow>
          (case universe_copy uh u of
             (uh1, future_uni) \<Rightarrow>
               (case copy cls of
                  None \<Rightarrow> (Inl (AttributeError ''copy''), uh1)
                | Some cp \<Rightarrow>
                    (let future_self = cp self
                     in case p_index self of
                          None \<Rightarrow> (Inl (AttributeError ''_index''), uh1)
                        | Some i \<Rightarrow>
                            (case move_bot (uh1 ! future_uni) i mv of
                               Inl e \<Rightarrow> (Inl e, uh1)
                             | Inr (u', new_state) \<Rightarrow>
                                 (case universe_states future_self of
                                    None \<Rightarrow>
                                      (Inl (AttributeError ''universe_states''),
                                       uh1[future_uni := u'])
                                  | Some us \<Rightarrow>
                                      (Inr (future_self
                                             \<lparr>universe_states := Some (us @ [future_uni]),
                                              p_current_state := Some new_state\<rparr>),
                                       uh1[future_uni := u'])))))))"

text \<open>\<^verbatim>\<open>Player2.say(self, text)\<close>.\<close>

definition Player2_say :: "'x Player2 \<Rightarrow> string \<Rightarrow> 'x Player2" where
  "Player2_say self t = self\<lparr>p_say := Some t\<rparr>"

section \<open>The concrete players\<close>

text \<open>\<^verbatim>\<open>StoppingPlayer\<close>: it has no attribute of its own.\<close>

definition StoppingPlayer_get_move ::
  "unit Player2 \<Rightarrow> 'u list \<Rightarrow> (error + move) \<times> unit \<times> string option" where
  "StoppingPlayer_get_move self uh = (Inr stop, own self, p_say self)"

definition StoppingPlayer :: "(unit, 'u, move) methods" where
  "StoppingPlayer =
     \<lparr>set_initial = Player2_set_initial, get_move = StoppingPlayer_get_move, copy = None\<rparr>"

text \<open>
  \<^verbatim>\<open>InitialExceptionPlayer\<close>: its \<^verbatim>\<open>set_initial\<close> raises, its \<^verbatim>\<open>get_move\<close>
  returns \<^verbatim>\<open>None\<close>.
\<close>

definition InitialExceptionPlayer_set_initial :: "unit Player2 \<Rightarrow> 'u list \<Rightarrow> error option \<times> unit" where
  "InitialExceptionPlayer_set_initial self uh =
     (Some (Exception ''Exception from InitialExceptionPlayer.''), own self)"

definition InitialExceptionPlayer_get_move ::
  "unit Player2 \<Rightarrow> 'u list \<Rightarrow> (error + unit) \<times> unit \<times> string option" where
  "InitialExceptionPlayer_get_move self uh = (Inr (), own self, p_say self)"

definition InitialExceptionPlayer :: "(unit, 'u, unit) methods" where
  "InitialExceptionPlayer =
     \<lparr>set_initial = InitialExceptionPlayer_set_initial,
      get_move = InitialExceptionPlayer_get_move, copy = None\<rparr>"

text \<open>\<^verbatim>\<open>SteppingPlayer\<close>.\<close>


text \<open>
  \<^verbatim>\<open>self.moves\<close> is an iterator: over a generator that looks each character of a
  string up in \<^verbatim>\<open>_MOVES\<close> when it is asked for the next move, or over the list
  itself. The state of the iterator is what is left to consume.
\<close>

datatype moves_arg = MovesStr string | MovesList "move list"

datatype move_iter = GenIter string | ListIter "move list"

definition MOVES :: "char \<Rightarrow> move option" where
  "MOVES c =
     (if c = CHR ''^'' then Some north
      else if c = CHR ''v'' then Some south
      else if c = CHR ''<'' then Some west
      else if c = CHR ''>'' then Some east
      else if c = CHR ''-'' then Some stop
      else None)"

definition SteppingPlayer_init :: "moves_arg \<Rightarrow> move_iter Player2" where
  "SteppingPlayer_init moves =
     new_Player2 (case moves of MovesStr cs \<Rightarrow> GenIter cs | MovesList ms \<Rightarrow> ListIter ms)"

text \<open>
  \<^verbatim>\<open>next(self.moves)\<close>, with the iterator after the call. A generator that raised
  is finished: the lookup of an unknown character raises \<open>KeyError\<close> out of the
  generator, and every later \<^verbatim>\<open>next\<close> finds it exhausted.
  \<open>None\<close> is \<^verbatim>\<open>StopIteration\<close>.
\<close>

fun next_move :: "move_iter \<Rightarrow> (error + move) option \<times> move_iter" where
  "next_move (ListIter []) = (None, ListIter [])"
| "next_move (ListIter (m # ms)) = (Some (Inr m), ListIter ms)"
| "next_move (GenIter []) = (None, GenIter [])"
| "next_move (GenIter (c # cs)) =
     (case MOVES c of
        None \<Rightarrow> (Some (Inl (KeyError [c])), GenIter [])
      | Some m \<Rightarrow> (Some (Inr m), GenIter cs))"

definition SteppingPlayer_get_move ::
  "move_iter Player2 \<Rightarrow> 'u list \<Rightarrow> (error + move) \<times> move_iter \<times> string option" where
  "SteppingPlayer_get_move self uh =
     (case next_move (own self) of
        (None, it) \<Rightarrow> (Inl (ValueError []), it, p_say self)
      | (Some r, it) \<Rightarrow> (r, it, p_say self))"

definition SteppingPlayer :: "(move_iter, 'u, move) methods" where
  "SteppingPlayer =
     \<lparr>set_initial = Player2_set_initial, get_move = SteppingPlayer_get_move, copy = None\<rparr>"

text \<open>One call of \<^verbatim>\<open>get_move()\<close> on the object, which keeps the iterator.\<close>

definition SteppingPlayer_call :: "move_iter Player2 \<Rightarrow> (error + move) \<times> move_iter Player2" where
  "SteppingPlayer_call self =
     (case SteppingPlayer_get_move self ([] :: unit list) of
        (r, it, sy) \<Rightarrow> (r, self\<lparr>own := it, p_say := sy\<rparr>))"

section \<open>The team multiplexer: class \<^verbatim>\<open>SimpleTeam\<close>\<close>

text \<open>
  The attributes of a \<^verbatim>\<open>SimpleTeam\<close>: \<open>players\<close> is \<^verbatim>\<open>_players\<close>,
  \<open>bot_players\<close> the dictionary \<^verbatim>\<open>_bot_players\<close> and \<open>remote_game\<close> the
  attribute \<^verbatim>\<open>_remote_game\<close>. Players are held by reference.
\<close>

record SimpleTeam =
  team_name :: string
  players :: "pyval list"
  bot_players :: "int \<rightharpoonup> pyval"
  remote_game :: bool

text \<open>
  \<^verbatim>\<open>hasattr(player, method)\<close> for the three method names that the constructor
  asks for. Which attributes an object has is given by \<open>attrs\<close>; a string has none of
  the three.
\<close>

definition hasattr :: "(nat \<Rightarrow> string \<Rightarrow> bool) \<Rightarrow> pyval \<Rightarrow> string \<Rightarrow> bool" where
  "hasattr attrs p m = (case p of Str _ \<Rightarrow> False | Ref r \<Rightarrow> attrs r m)"

definition required_methods :: "string list" where
  "required_methods = [''_set_index'', ''_get_move'', ''_set_initial'']"

text \<open>The inner and the outer loop of lines 90 to 93.\<close>

fun check_methods :: "(nat \<Rightarrow> string \<Rightarrow> bool) \<Rightarrow> pyval \<Rightarrow> string list \<Rightarrow> error option" where
  "check_methods attrs p [] = None"
| "check_methods attrs p (m # ms) =
     (if \<not> hasattr attrs p m then Some (TypeError (''player missing '' @ m @ ''()''))
      else check_methods attrs p ms)"

fun check_players :: "(nat \<Rightarrow> string \<Rightarrow> bool) \<Rightarrow> pyval list \<Rightarrow> error option" where
  "check_players attrs [] = None"
| "check_players attrs (p # ps) =
     (case check_methods attrs p required_methods of
        Some e \<Rightarrow> Some e
      | None \<Rightarrow> check_players attrs ps)"

text \<open>
  The setter of the property \<^verbatim>\<open>remote_game\<close>: it assigns \<^verbatim>\<open>_remote_game\<close>
  on the team and on every player. A string takes no new attribute; an object outside
  the player store is not a \<^verbatim>\<open>Player2\<close> and its attributes are not followed.
\<close>

fun set_remote_all :: "bool \<Rightarrow> pyval list \<Rightarrow> 'x Player2 list \<Rightarrow> error option \<times> 'x Player2 list" where
  "set_remote_all v [] ph = (None, ph)"
| "set_remote_all v (Str s # ps) ph = (Some (AttributeError ''_remote_game''), ph)"
| "set_remote_all v (Ref r # ps) ph =
     set_remote_all v ps
       (if r < length ph then ph[r := (ph ! r)\<lparr>p_remote_game := Some v\<rparr>] else ph)"

definition SimpleTeam_remote_game_setter ::
  "SimpleTeam \<Rightarrow> bool \<Rightarrow> 'x Player2 list \<Rightarrow> error option \<times> SimpleTeam \<times> 'x Player2 list" where
  "SimpleTeam_remote_game_setter self v ph =
     (case set_remote_all v (players self) ph of
        (e, ph') \<Rightarrow> (e, self\<lparr>remote_game := v\<rparr>, ph'))"

text \<open>
  \<^verbatim>\<open>SimpleTeam.__init__(self, *args)\<close>: the new team, or the exception, and the
  player store.
\<close>

definition SimpleTeam_init ::
  "(nat \<Rightarrow> string \<Rightarrow> bool) \<Rightarrow> pyval list \<Rightarrow> 'x Player2 list \<Rightarrow> (error + SimpleTeam) \<times> 'x Player2 list" where
  "SimpleTeam_init attrs args ph =
     (case args of
        [] \<Rightarrow> (Inl (ValueError ''No teams given.''), ph)
      | a # rest \<Rightarrow>
          (let (name, ps) = (case a of Str n \<Rightarrow> (n, rest) | Ref _ \<Rightarrow> ([], args)) in
           case check_players attrs ps of
             Some e \<Rightarrow> (Inl e, ph)
           | None \<Rightarrow>
               (case SimpleTeam_remote_game_setter
                       \<lparr>team_name = name, players = ps, bot_players = Map.empty,
                        remote_game = False\<rparr> False ph of
                  (Some e, self, ph') \<Rightarrow> (Inl e, ph')
                | (None, self, ph') \<Rightarrow> (Inr self, ph'))))"

text \<open>
  The loop of lines 129 to 134 over \<^verbatim>\<open>zip(team_bots, self._players)\<close>. An
  exception ends the loop where it is raised, and what was assigned before stays assigned.
  A player at an address of the player store is a \<^verbatim>\<open>Player2\<close> with the methods
  \<^verbatim>\<open>_set_index\<close> and \<^verbatim>\<open>_set_initial\<close> of that class; its class, for the
  methods that a subclass supplies, is given by \<open>cls_of\<close>. Any other reference is an
  object with methods of its own: what its \<^verbatim>\<open>_set_index(bot.index)\<close> followed by its
  \<^verbatim>\<open>_set_initial(universe, game_state)\<close> does is given by \<open>foreign\<close>, which may
  raise and may change the state \<open>fs\<close> of such objects and the universes. A string has
  no method \<^verbatim>\<open>_set_index\<close>.
\<close>

fun set_initial_loop ::
  "(nat \<Rightarrow> ('x, 'u, 'm) methods) \<Rightarrow>
     (nat \<Rightarrow> int \<Rightarrow> nat \<Rightarrow> game_state \<Rightarrow> 'f \<Rightarrow> 'u list \<Rightarrow> error option \<times> 'f \<times> 'u list) \<Rightarrow>
     nat \<Rightarrow> game_state \<Rightarrow> ('b bot_scheme \<times> pyval) list \<Rightarrow>
     SimpleTeam \<Rightarrow> 'x Player2 list \<Rightarrow> 'f \<Rightarrow> 'u list \<Rightarrow>
     error option \<times> SimpleTeam \<times> 'x Player2 list \<times> 'f \<times> 'u list" where
  "set_initial_loop cls_of foreign u gs [] self ph fs uh = (None, self, ph, fs, uh)"
| "set_initial_loop cls_of foreign u gs ((b, Str s) # rest) self ph fs uh =
     (Some (AttributeError ''_set_index''), self, ph, fs, uh)"
| "set_initial_loop cls_of foreign u gs ((b, Ref r) # rest) self ph fs uh =
     (if r < length ph then
        (case Player2__set_initial (cls_of r) (Player2__set_index (ph ! r) (index b)) uh u gs of
           (Some e, s', uh') \<Rightarrow> (Some e, self, ph[r := s'], fs, uh')
         | (None, s', uh') \<Rightarrow>
             set_initial_loop cls_of foreign u gs rest
               (self\<lparr>bot_players := (bot_players self)(index b \<mapsto> Ref r)\<rparr>)
               (ph[r := s']) fs uh')
      else
        (case foreign r (index b) u gs fs uh of
           (Some e, fs', uh') \<Rightarrow> (Some e, self, ph, fs', uh')
         | (None, fs', uh') \<Rightarrow>
             set_initial_loop cls_of foreign u gs rest
               (self\<lparr>bot_players := (bot_players self)(index b \<mapsto> Ref r)\<rparr>) ph fs' uh'))"

text \<open>
  \<^verbatim>\<open>SimpleTeam.set_initial(self, team_id, universe, game_state)\<close>.
  \<open>team_bots\<close> is the method of the absent universe class. The result is the team name,
  or the exception, with the team, the players and the universe store as the call leaves
  them.
\<close>

definition SimpleTeam_set_initial ::
  "(nat \<Rightarrow> ('x, 'u, 'm) methods) \<Rightarrow>
     (nat \<Rightarrow> int \<Rightarrow> nat \<Rightarrow> game_state \<Rightarrow> 'f \<Rightarrow> 'u list \<Rightarrow> error option \<times> 'f \<times> 'u list) \<Rightarrow>
     ('u \<Rightarrow> int \<Rightarrow> 'b bot_scheme list) \<Rightarrow>
     SimpleTeam \<Rightarrow> 'x Player2 list \<Rightarrow> 'f \<Rightarrow> 'u list \<Rightarrow> int \<Rightarrow> nat \<Rightarrow> game_state \<Rightarrow>
     (error + string) \<times> SimpleTeam \<times> 'x Player2 list \<times> 'f \<times> 'u list" where
  "SimpleTeam_set_initial cls_of foreign team_bots self ph fs uh team_id u game_state =
     (let tb = team_bots (uh ! u) team_id
      in if length tb > length (players self) then
           (Inl (ValueError (''Tried to set '' @ show_nat (length tb) @ '' bot_ids with only ''
                              @ show_nat (length (players self)) @ '' Players.'')),
            self, ph, fs, uh)
         else
           (case set_initial_loop cls_of foreign u game_state (zip tb (players self))
                   self ph fs uh of
              (Some e, self', ph', fs', uh') \<Rightarrow> (Inl e, self', ph', fs', uh')
            | (None, self', ph', fs', uh') \<Rightarrow> (Inr (team_name self'), self', ph', fs', uh')))"

section \<open>Scripted agent\<close>

text \<open>
  C9. A \<^verbatim>\<open>SteppingPlayer\<close> built from the shorthand string \<^verbatim>\<open>"><v^-"\<close>
  returns east, west, south, north and stop on its first five calls of
  \<^verbatim>\<open>get_move\<close>; the sixth call raises \<^verbatim>\<open>ValueError()\<close>, not
  \<^verbatim>\<open>StopIteration\<close>.
\<close>

theorem stepping_player_shorthand:
  "(let s0 = SteppingPlayer_init (MovesStr ''><v^-'');
        (r1, s1) = SteppingPlayer_call s0;
        (r2, s2) = SteppingPlayer_call s1;
        (r3, s3) = SteppingPlayer_call s2;
        (r4, s4) = SteppingPlayer_call s3;
        (r5, s5) = SteppingPlayer_call s4;
        (r6, s6) = SteppingPlayer_call s5
    in [r1, r2, r3, r4, r5, r6] =
         [Inr east, Inr west, Inr south, Inr north, Inr stop, Inl (ValueError [])])"
  by (simp add: SteppingPlayer_call_def SteppingPlayer_get_move_def SteppingPlayer_init_def
      new_Player2_def MOVES_def)

section \<open>Construction of a team\<close>

lemma check_methods_None: "check_methods attrs p ms = None \<longleftrightarrow> (\<forall>m\<in>set ms. hasattr attrs p m)"
  by (induction ms) auto

lemma check_methods_Some:
  "check_methods attrs p ms = Some e \<Longrightarrow>
     \<exists>ms1 m ms2. ms = ms1 @ m # ms2 \<and> (\<forall>m'\<in>set ms1. hasattr attrs p m') \<and>
        \<not> hasattr attrs p m \<and> e = TypeError (''player missing '' @ m @ ''()'')"
proof (induction ms)
  case Nil
  then show ?case by simp
next
  case (Cons a ms)
  show ?case
  proof (cases "hasattr attrs p a")
    case False
    with Cons.prems have "e = TypeError (''player missing '' @ a @ ''()'')" by simp
    with False show ?thesis by (intro exI[of _ "[]"] exI[of _ a] exI[of _ ms]) simp
  next
    case True
    with Cons.prems have "check_methods attrs p ms = Some e" by simp
    from Cons.IH[OF this] obtain ms1 m ms2 where
      "ms = ms1 @ m # ms2" "\<forall>m'\<in>set ms1. hasattr attrs p m'" "\<not> hasattr attrs p m"
      "e = TypeError (''player missing '' @ m @ ''()'')" by blast
    with True show ?thesis
      by (intro exI[of _ "a # ms1"] exI[of _ m] exI[of _ ms2]) simp
  qed
qed

lemma check_players_None:
  "check_players attrs ps = None \<longleftrightarrow> (\<forall>p\<in>set ps. \<forall>m\<in>set required_methods. hasattr attrs p m)"
proof (induction ps)
  case Nil
  then show ?case by simp
next
  case (Cons a ps)
  have "check_players attrs (a # ps) = None \<longleftrightarrow>
          check_methods attrs a required_methods = None \<and> check_players attrs ps = None"
    by (simp split: option.splits)
  with Cons.IH show ?case by (simp add: check_methods_None)
qed

lemma check_players_Some:
  "check_players attrs ps = Some e \<Longrightarrow>
     \<exists>ps1 p ps2 ms1 m ms2. ps = ps1 @ p # ps2 \<and>
        (\<forall>q\<in>set ps1. \<forall>m'\<in>set required_methods. hasattr attrs q m') \<and>
        required_methods = ms1 @ m # ms2 \<and> (\<forall>m'\<in>set ms1. hasattr attrs p m') \<and>
        \<not> hasattr attrs p m \<and> e = TypeError (''player missing '' @ m @ ''()'')"
proof (induction ps)
  case Nil
  then show ?case by simp
next
  case (Cons a ps)
  show ?case
  proof (cases "check_methods attrs a required_methods")
    case (Some e')
    with Cons.prems have "e' = e" by simp
    with Some check_methods_Some[of attrs a required_methods e] obtain ms1 m ms2 where
      "required_methods = ms1 @ m # ms2" "\<forall>m'\<in>set ms1. hasattr attrs a m'" "\<not> hasattr attrs a m"
      "e = TypeError (''player missing '' @ m @ ''()'')" by blast
    then show ?thesis
      by (intro exI[of _ "[]"] exI[of _ a] exI[of _ ps] exI[of _ ms1] exI[of _ m] exI[of _ ms2]) simp
  next
    case None
    with Cons.prems have "check_players attrs ps = Some e" by simp
    from Cons.IH[OF this] obtain ps1 p ps2 ms1 m ms2 where h:
      "ps = ps1 @ p # ps2" "\<forall>q\<in>set ps1. \<forall>m'\<in>set required_methods. hasattr attrs q m'"
      "required_methods = ms1 @ m # ms2" "\<forall>m'\<in>set ms1. hasattr attrs p m'" "\<not> hasattr attrs p m"
      "e = TypeError (''player missing '' @ m @ ''()'')" by blast
    from None have "\<forall>m'\<in>set required_methods. hasattr attrs a m'" by (simp add: check_methods_None)
    with h show ?thesis
      by (intro exI[of _ "a # ps1"] exI[of _ p] exI[of _ ps2] exI[of _ ms1] exI[of _ m] exI[of _ ms2]) simp
  qed
qed

lemma check_players_refs:
  "check_players attrs ps = None \<Longrightarrow> \<forall>p\<in>set ps. \<exists>r. p = Ref r"
proof
  fix p assume "check_players attrs ps = None" "p \<in> set ps"
  then have "hasattr attrs p ''_set_index''"
    by (simp add: check_players_None required_methods_def)
  then show "\<exists>r. p = Ref r" by (cases p) (simp_all add: hasattr_def)
qed

lemma set_remote_all_refs:
  "\<forall>p\<in>set ps. \<exists>r. p = Ref r \<Longrightarrow> fst (set_remote_all v ps ph) = None"
  by (induction v ps ph rule: set_remote_all.induct) auto


lemma check_methods_first:
  "\<forall>m'\<in>set ms1. hasattr attrs p m' \<Longrightarrow> \<not> hasattr attrs p m \<Longrightarrow>
     check_methods attrs p (ms1 @ m # ms2) = Some (TypeError (''player missing '' @ m @ ''()''))"
  by (induction ms1) auto

lemma check_players_first:
  "\<forall>q\<in>set ps1. \<forall>m'\<in>set required_methods. hasattr attrs q m' \<Longrightarrow>
     check_methods attrs p required_methods = Some e \<Longrightarrow>
     check_players attrs (ps1 @ p # ps2) = Some e"
proof (induction ps1)
  case Nil
  then show ?case by simp
next
  case (Cons a ps1)
  then have "check_methods attrs a required_methods = None"
    by (simp add: check_methods_None)
  with Cons show ?case by simp
qed

lemma set_remote_all_length: "length (snd (set_remote_all v ps ph)) = length ph"
  by (induction v ps ph rule: set_remote_all.induct) auto

lemma setter_after_check:
  "check_players attrs ps = None \<Longrightarrow>
     SimpleTeam_remote_game_setter
        \<lparr>team_name = name, players = ps, bot_players = Map.empty, remote_game = False\<rparr> False ph =
     (None, \<lparr>team_name = name, players = ps, bot_players = Map.empty, remote_game = False\<rparr>,
      snd (set_remote_all False ps ph))"
proof -
  assume "check_players attrs ps = None"
  then have "fst (set_remote_all False ps ph) = None"
    by (intro set_remote_all_refs check_players_refs)
  then show ?thesis
    by (cases "set_remote_all False ps ph") (simp add: SimpleTeam_remote_game_setter_def)
qed

lemma SimpleTeam_init_result:
  "fst (SimpleTeam_init attrs args ph) =
     (case args of
        [] \<Rightarrow> Inl (ValueError ''No teams given.'')
      | a # rest \<Rightarrow>
          (case check_players attrs (case a of Str n \<Rightarrow> rest | Ref r \<Rightarrow> args) of
             Some e \<Rightarrow> Inl e
           | None \<Rightarrow>
               Inr \<lparr>team_name = (case a of Str n \<Rightarrow> n | Ref r \<Rightarrow> []),
                    players = (case a of Str n \<Rightarrow> rest | Ref r \<Rightarrow> args),
                    bot_players = Map.empty, remote_game = False\<rparr>))"
proof (cases args)
  case Nil
  then show ?thesis by (simp add: SimpleTeam_init_def)
next
  case (Cons a rest)
  show ?thesis
  proof (cases a)
    case (Str n)
    show ?thesis
      unfolding Cons Str
      by (cases "check_players attrs rest") (simp_all add: SimpleTeam_init_def setter_after_check)
  next
    case (Ref r)
    show ?thesis
      unfolding Cons Ref
      by (cases "check_players attrs (Ref r # rest)")
         (simp_all add: SimpleTeam_init_def setter_after_check del: check_players.simps)
  qed
qed

text \<open>
  C7, as the code has it. The constructor raises in exactly two cases. With no argument at
  all it raises \<^verbatim>\<open>ValueError("No teams given.")\<close>. Otherwise the players are the
  arguments after a leading team name, and it raises \<open>TypeError\<close> exactly when one of
  them lacks one of the three methods; the message names the first method, in the order
  \<^verbatim>\<open>_set_index\<close>, \<^verbatim>\<open>_get_move\<close>, \<^verbatim>\<open>_set_initial\<close>, that the first such
  player lacks. A team name alone constructs a team with no players.
\<close>

theorem SimpleTeam_init_failure:
  "(let ps = (case args of Str n # rest \<Rightarrow> rest | _ \<Rightarrow> args) in
      (\<forall>e. fst (SimpleTeam_init attrs args ph) = Inl e \<longleftrightarrow>
         (args = [] \<and> e = ValueError ''No teams given.'') \<or>
         (args \<noteq> [] \<and>
          (\<exists>ps1 p ps2 ms1 m ms2.
              ps = ps1 @ p # ps2 \<and>
              (\<forall>q\<in>set ps1. \<forall>m'\<in>set required_methods. hasattr attrs q m') \<and>
              required_methods = ms1 @ m # ms2 \<and>
              (\<forall>m'\<in>set ms1. hasattr attrs p m') \<and> \<not> hasattr attrs p m \<and>
              e = TypeError (''player missing '' @ m @ ''()'')))))
   \<and> SimpleTeam_init attrs [Str n] ph =
        (Inr \<lparr>team_name = n, players = [], bot_players = Map.empty, remote_game = False\<rparr>, ph)"
proof (intro conjI)
  show "SimpleTeam_init attrs [Str n] ph =
        (Inr \<lparr>team_name = n, players = [], bot_players = Map.empty, remote_game = False\<rparr>, ph)"
    by (simp add: SimpleTeam_init_def SimpleTeam_remote_game_setter_def)
next
  define ps where "ps = (case args of Str n # rest \<Rightarrow> rest | _ \<Rightarrow> args)"
  have res: "args \<noteq> [] \<Longrightarrow> fst (SimpleTeam_init attrs args ph) =
     (case check_players attrs ps of Some e \<Rightarrow> Inl e
      | None \<Rightarrow> Inr \<lparr>team_name = (case hd args of Str n \<Rightarrow> n | Ref r \<Rightarrow> []),
                    players = ps, bot_players = Map.empty, remote_game = False\<rparr>)"
    unfolding SimpleTeam_init_result ps_def
    by (cases args) (auto split: pyval.splits option.splits)
  have "fst (SimpleTeam_init attrs args ph) = Inl e \<longleftrightarrow>
         (args = [] \<and> e = ValueError ''No teams given.'') \<or>
         (args \<noteq> [] \<and>
          (\<exists>ps1 p ps2 ms1 m ms2.
              ps = ps1 @ p # ps2 \<and>
              (\<forall>q\<in>set ps1. \<forall>m'\<in>set required_methods. hasattr attrs q m') \<and>
              required_methods = ms1 @ m # ms2 \<and>
              (\<forall>m'\<in>set ms1. hasattr attrs p m') \<and> \<not> hasattr attrs p m \<and>
              e = TypeError (''player missing '' @ m @ ''()'')))" (is "?L = (?A \<or> ?B)") for e
  proof (cases "args = []")
    case True
    then show ?thesis by (auto simp: SimpleTeam_init_def)
  next
    case False
    show ?thesis
    proof
      assume ?L
      with res[OF False] have "check_players attrs ps = Some e"
        by (simp split: option.splits)
      from check_players_Some[OF this] False show "?A \<or> ?B" by blast
    next
      assume "?A \<or> ?B"
      with False obtain ps1 p ps2 ms1 m ms2 where h:
        "ps = ps1 @ p # ps2" "\<forall>q\<in>set ps1. \<forall>m'\<in>set required_methods. hasattr attrs q m'"
        "required_methods = ms1 @ m # ms2" "\<forall>m'\<in>set ms1. hasattr attrs p m'"
        "\<not> hasattr attrs p m" "e = TypeError (''player missing '' @ m @ ''()'')" by blast
      have "check_methods attrs p required_methods = Some e"
        unfolding h(3) h(6) by (rule check_methods_first[OF h(4) h(5)])
      with h(1,2) have "check_players attrs ps = Some e"
        by (simp add: check_players_first)
      with res[OF False] show ?L by simp
    qed
  qed
  then show "let ps = (case args of Str n # rest \<Rightarrow> rest | _ \<Rightarrow> args) in
      (\<forall>e. fst (SimpleTeam_init attrs args ph) = Inl e \<longleftrightarrow>
         (args = [] \<and> e = ValueError ''No teams given.'') \<or>
         (args \<noteq> [] \<and>
          (\<exists>ps1 p ps2 ms1 m ms2.
              ps = ps1 @ p # ps2 \<and>
              (\<forall>q\<in>set ps1. \<forall>m'\<in>set required_methods. hasattr attrs q m') \<and>
              required_methods = ms1 @ m # ms2 \<and>
              (\<forall>m'\<in>set ms1. hasattr attrs p m') \<and> \<not> hasattr attrs p m \<and>
              e = TypeError (''player missing '' @ m @ ''()''))))"
    unfolding ps_def Let_def by blast
qed

text \<open>A player without \<^verbatim>\<open>_get_move\<close>, after a team name.\<close>

theorem SimpleTeam_init_failure_witness:
  "fst (SimpleTeam_init (\<lambda>r m. m \<noteq> ''_get_move'') [Str ''team'', Ref 0] ([] :: unit Player2 list))
     = Inl (TypeError ''player missing _get_move()'')"
proof -
  let ?attrs = "\<lambda>(r::nat) m. m \<noteq> ''_get_move''"
  have "\<exists>ps1 p ps2 ms1 m ms2.
          [Ref 0] = ps1 @ p # ps2 \<and>
          (\<forall>q\<in>set ps1. \<forall>m'\<in>set required_methods. hasattr ?attrs q m') \<and>
          required_methods = ms1 @ m # ms2 \<and>
          (\<forall>m'\<in>set ms1. hasattr ?attrs p m') \<and> \<not> hasattr ?attrs p m \<and>
          TypeError ''player missing _get_move()'' = TypeError (''player missing '' @ m @ ''()'')"
    by (intro exI[of _ "[]"] exI[of _ "Ref 0"] exI[of _ "[''_set_index'']"]
        exI[of _ "''_get_move''"] exI[of _ "[''_set_initial'']"])
       (simp add: required_methods_def hasattr_def)
  with SimpleTeam_init_failure
         [of "[Str ''team'', Ref 0]" ?attrs "[] :: unit Player2 list" "''x''"]
  show ?thesis by (simp add: Let_def)
qed

text \<open>
  Against C7 as it is written: \<^verbatim>\<open>SimpleTeam("my team")\<close> does not fail, it is a
  team with an empty list of players.
\<close>

theorem SimpleTeam_name_only_constructs:
  "fst (SimpleTeam_init (\<lambda>r m. True) [Str ''my team''] ([] :: unit Player2 list)) =
     Inr \<lparr>team_name = ''my team'', players = [], bot_players = Map.empty, remote_game = False\<rparr>"
  by (simp add: SimpleTeam_init_def SimpleTeam_remote_game_setter_def)

section \<open>Initialising a session\<close>

lemma store_universe_after_reset:
  "Player2__store_universe
      (s\<lparr>p_store_universe := Some pol, p_current_state := g, universe_states := Some []\<rparr>) uh u =
   (None,
    s\<lparr>p_store_universe := Some pol, p_current_state := g,
      universe_states := Some [case pol of by_copy \<Rightarrow> length uh | by_ref \<Rightarrow> u]\<rparr>,
    case pol of by_copy \<Rightarrow> uh @ [uh ! u] | by_ref \<Rightarrow> uh)"
  by (cases pol)
     (simp_all add: Player2__store_universe_def Player2__store_universe_copy_def
        Player2__store_universe_ref_def universe_copy_def)

lemma Player2__set_initial_run:
  "Player2__set_initial cls self uh u gs =
     (let pol = (if p_remote_game self = Some True then by_ref else by_copy);
          s3 = self\<lparr>p_store_universe := Some pol, p_current_state := Some gs,
                    universe_states := Some [case pol of by_copy \<Rightarrow> length uh | by_ref \<Rightarrow> u]\<rparr>;
          uh3 = (case pol of by_copy \<Rightarrow> uh @ [uh ! u] | by_ref \<Rightarrow> uh)
      in case p_index self of
           None \<Rightarrow> (Some (AttributeError ''_index''), s3, uh3)
         | Some i \<Rightarrow>
             (let s5 = s3\<lparr>rnd := Some (case seed gs of
                                         None \<Rightarrow> Unseeded
                                       | Some n \<Rightarrow>
                                           Seeded (n + (case seed_offset self of
                                                          None \<Rightarrow> i | Some k \<Rightarrow> k)))\<rparr>
              in (fst (set_initial cls s5 uh3), s5\<lparr>own := snd (set_initial cls s5 uh3)\<rparr>, uh3)))"
  unfolding Player2__set_initial_def Let_def store_universe_after_reset
  by (simp split: option.splits prod.splits)

text \<open>
  C4. When the game state holds a seed, \<^verbatim>\<open>_set_initial\<close> seeds the random stream of
  the session with the seed plus an offset: the attribute \<^verbatim>\<open>seed_offset\<close> if the
  object has one, else the index that \<^verbatim>\<open>_set_index\<close> bound. Two sessions without
  \<^verbatim>\<open>seed_offset\<close> and with different indices get different seeds under the same game
  seed, and the seed of a session depends on nothing but the game seed and the offset, so
  every run with them seeds the stream alike.
\<close>

theorem seeded_stream:
  "seed gs = Some n \<Longrightarrow>
     (let after = (\<lambda>self i. fst (snd (Player2__set_initial cls (Player2__set_index self i) uh u gs)));
          after' = (\<lambda>self i. fst (snd (Player2__set_initial cls' (Player2__set_index self i) uh' u' gs)))
      in rnd (after self i) =
           Some (Seeded (n + (case seed_offset self of None \<Rightarrow> i | Some k \<Rightarrow> k))) \<and>
         (seed_offset self = None \<and> seed_offset self' = None \<and> i \<noteq> j \<longrightarrow>
            rnd (after self i) \<noteq> rnd (after' self' j)) \<and>
         (seed_offset self = seed_offset self' \<longrightarrow> rnd (after self i) = rnd (after' self' i)))"
  by (simp add: Player2__set_initial_run Player2__set_index_def Let_def)


text \<open>Game seed 42 with the bot indices 3 and 7.\<close>

theorem seeded_stream_witness:
  "rnd (fst (snd (Player2__set_initial StoppingPlayer (Player2__set_index (new_Player2 ()) 3)
                    [\<lparr>bots = []\<rparr>] 0 \<lparr>seed = Some 42, gs_team_name = []\<rparr>))) = Some (Seeded 45) \<and>
   rnd (fst (snd (Player2__set_initial StoppingPlayer (Player2__set_index (new_Player2 ()) 7)
                    [\<lparr>bots = []\<rparr>] 0 \<lparr>seed = Some 42, gs_team_name = []\<rparr>))) = Some (Seeded 49)"
  using seeded_stream
          [of "\<lparr>seed = Some 42, gs_team_name = []\<rparr>" 42 StoppingPlayer "[\<lparr>bots = []\<rparr>]" 0
              StoppingPlayer "[\<lparr>bots = []\<rparr>]" 0 "new_Player2 ()" 3 "new_Player2 ()" 7]
        seeded_stream
          [of "\<lparr>seed = Some 42, gs_team_name = []\<rparr>" 42 StoppingPlayer "[\<lparr>bots = []\<rparr>]" 0
              StoppingPlayer "[\<lparr>bots = []\<rparr>]" 0 "new_Player2 ()" 7 "new_Player2 ()" 3]
  by (simp add: Let_def new_Player2_def)

text \<open>
  The same through the team: players \<open>[A, B]\<close>, bots 3 and 7, seed 42.
\<close>

lemma team_seed_example:
  "(case SimpleTeam_set_initial (\<lambda>r. StoppingPlayer) (\<lambda>r i u g (f :: unit) h. (None, f, h))
           (\<lambda>u t. bots u)
           \<lparr>team_name = [], players = [Ref 0, Ref 1], bot_players = Map.empty,
            remote_game = False\<rparr>
           [new_Player2 (), new_Player2 ()] ()
           [\<lparr>bots = [\<lparr>index = 3, current_pos = (1, 1), initial_pos = (1, 1)\<rparr>,
                     \<lparr>index = 7, current_pos = (1, 2), initial_pos = (1, 2)\<rparr>]\<rparr>]
           0 0 \<lparr>seed = Some 42, gs_team_name = []\<rparr> of
      (r, self', ph', fs', uh') \<Rightarrow>
        r = Inr [] \<and> bot_players self' 3 = Some (Ref 0) \<and> bot_players self' 7 = Some (Ref 1) \<and>
        map p_index ph' = [Some 3, Some 7] \<and>
        map rnd ph' = [Some (Seeded 45), Some (Seeded 49)])"
  by (simp add: SimpleTeam_set_initial_def Player2__set_initial_run Player2__set_index_def
      StoppingPlayer_def Player2_set_initial_def new_Player2_def Let_def)

section \<open>Storing universes by copy or by reference\<close>

lemma get_move_store:
  "p_store_universe s = Some pol \<Longrightarrow> universe_states s = Some us \<Longrightarrow>
     \<exists>r s2. Player2__get_move cls s uh u gs =
              (r, s2, case pol of by_copy \<Rightarrow> uh @ [uh ! u] | by_ref \<Rightarrow> uh) \<and>
            p_store_universe s2 = Some pol \<and>
            universe_states s2 = Some (us @ [case pol of by_copy \<Rightarrow> length uh | by_ref \<Rightarrow> u])"
  by (cases pol)
     (simp_all add: Player2__get_move_def Player2__store_universe_def
        Player2__store_universe_copy_def Player2__store_universe_ref_def universe_copy_def Let_def
        split: prod.splits sum.splits option.splits)

text \<open>
  C5. \<^verbatim>\<open>_set_initial\<close> fixes the way of storing from the remote flag: by reference
  when the flag is true, by copy otherwise. \<^verbatim>\<open>_get_move\<close> stores in the way that was
  fixed, whatever the flag is by then, and leaves the choice as it is. Stored by copy, the
  new history entry is an object of its own: after the original at address \<open>u\<close> is
  overwritten with any \<open>v\<close>, the entry still reads what the original held when it was
  stored. Stored by reference, the entry is the address \<open>u\<close> itself and reads \<open>v\<close>.
\<close>

theorem storage_policy:
  "u < length uh \<Longrightarrow>
   (case Player2__set_initial cls self uh u gs of
      (e, s1, uh1) \<Rightarrow>
        (p_remote_game self = Some True \<longrightarrow>
           p_store_universe s1 = Some by_ref \<and> universe_states s1 = Some [u] \<and>
           (\<forall>v. uh1[u := v] ! u = v)) \<and>
        (p_remote_game self \<noteq> Some True \<longrightarrow>
           p_store_universe s1 = Some by_copy \<and>
           (\<exists>c. universe_states s1 = Some [c] \<and> (\<forall>v. uh1[u := v] ! c = uh ! u)))) \<and>
   (p_store_universe s = Some pol \<and> universe_states s = Some us \<longrightarrow>
      (case Player2__get_move cls s uh u gs of
         (r, s2, uh2) \<Rightarrow>
           p_store_universe s2 = Some pol \<and>
           (pol = by_ref \<longrightarrow>
              universe_states s2 = Some (us @ [u]) \<and> (\<forall>v. uh2[u := v] ! u = v)) \<and>
           (pol = by_copy \<longrightarrow>
              (\<exists>c. universe_states s2 = Some (us @ [c]) \<and> (\<forall>v. uh2[u := v] ! c = uh ! u)))))"
proof (intro conjI impI)
  assume u: "u < length uh"
  show "case Player2__set_initial cls self uh u gs of
      (e, s1, uh1) \<Rightarrow>
        (p_remote_game self = Some True \<longrightarrow>
           p_store_universe s1 = Some by_ref \<and> universe_states s1 = Some [u] \<and>
           (\<forall>v. uh1[u := v] ! u = v)) \<and>
        (p_remote_game self \<noteq> Some True \<longrightarrow>
           p_store_universe s1 = Some by_copy \<and>
           (\<exists>c. universe_states s1 = Some [c] \<and> (\<forall>v. uh1[u := v] ! c = uh ! u)))"
    using u
    by (cases "p_index self")
       (simp_all add: Player2__set_initial_run Let_def nth_append)
next
  assume u: "u < length uh"
    and s: "p_store_universe s = Some pol \<and> universe_states s = Some us"
  from s get_move_store[of s pol us cls uh u gs] obtain r s2 where
    run: "Player2__get_move cls s uh u gs =
            (r, s2, case pol of by_copy \<Rightarrow> uh @ [uh ! u] | by_ref \<Rightarrow> uh)"
    and pol: "p_store_universe s2 = Some pol"
    and hist: "universe_states s2 = Some (us @ [case pol of by_copy \<Rightarrow> length uh | by_ref \<Rightarrow> u])"
    by blast
  show "case Player2__get_move cls s uh u gs of
         (r, s2, uh2) \<Rightarrow>
           p_store_universe s2 = Some pol \<and>
           (pol = by_ref \<longrightarrow>
              universe_states s2 = Some (us @ [u]) \<and> (\<forall>v. uh2[u := v] ! u = v)) \<and>
           (pol = by_copy \<longrightarrow>
              (\<exists>c. universe_states s2 = Some (us @ [c]) \<and> (\<forall>v. uh2[u := v] ! c = uh ! u)))"
    using u pol hist by (cases pol) (simp_all add: run nth_append)
qed

text \<open>
  A session without the remote flag and one with it, each initialised with an empty
  universe that is then overwritten.
\<close>

theorem storage_policy_witness:
  "(case Player2__set_initial StoppingPlayer (Player2__set_index (new_Player2 ()) 0)
           [\<lparr>bots = []\<rparr>] 0 \<lparr>seed = None, gs_team_name = []\<rparr> of
      (e, s1, uh1) \<Rightarrow>
        universe_states s1 = Some [1] \<and>
        uh1[0 := \<lparr>bots = [\<lparr>index = 0, current_pos = (1, 1), initial_pos = (1, 1)\<rparr>]\<rparr>] ! 1 =
          \<lparr>bots = []\<rparr>) \<and>
   (case Player2__set_initial StoppingPlayer
           ((Player2__set_index (new_Player2 ()) 0)\<lparr>p_remote_game := Some True\<rparr>)
           [\<lparr>bots = []\<rparr>] 0 \<lparr>seed = None, gs_team_name = []\<rparr> of
      (e, s1, uh1) \<Rightarrow>
        universe_states s1 = Some [0] \<and>
        uh1[0 := \<lparr>bots = [\<lparr>index = 0, current_pos = (1, 1), initial_pos = (1, 1)\<rparr>]\<rparr>] ! 0 =
          \<lparr>bots = [\<lparr>index = 0, current_pos = (1, 1), initial_pos = (1, 1)\<rparr>]\<rparr>)"
  using storage_policy
    [where u = 0 and uh = "[\<lparr>bots = []\<rparr>]" and cls = StoppingPlayer
       and self = "Player2__set_index (new_Player2 ()) 0"
       and gs = "\<lparr>seed = None, gs_team_name = []\<rparr>"
       and s = "new_Player2 ()" and pol = by_copy and us = "[]"]
    storage_policy
    [where u = 0 and uh = "[\<lparr>bots = []\<rparr>]" and cls = StoppingPlayer
       and self = "(Player2__set_index (new_Player2 ()) 0)\<lparr>p_remote_game := Some True\<rparr>"
       and gs = "\<lparr>seed = None, gs_team_name = []\<rparr>"
       and s = "new_Player2 ()" and pol = by_copy and us = "[]"]
  by (simp add: Player2__set_initial_run Player2__set_index_def new_Player2_def Let_def
      StoppingPlayer_def Player2_set_initial_def)

section \<open>The previous position\<close>







section \<open>Speculative simulation\<close>

lemma py_index_last: "us \<noteq> [] \<Longrightarrow> py_index us (- 1) = Inr (last us)"
proof (cases us)
  case Nil
  assume "us \<noteq> []"
  with Nil show ?thesis by simp
next
  case (Cons x xs)
  have "nat (int (Suc (length xs)) + - 1) = length xs" by simp
  moreover have "(x # xs) ! length xs = last (x # xs)"
    by (simp add: last_conv_nth)
  ultimately show ?thesis
    unfolding Cons py_index_def by simp
qed

lemma py_index_empty: "py_index [] i = Inl IndexError"
  by (simp add: py_index_def)

lemma current_uni_cases:
  "Player2__current_uni self =
     (case universe_states self of
        None \<Rightarrow> Inl (AttributeError ''universe_states'')
      | Some [] \<Rightarrow> Inl IndexError
      | Some (x # xs) \<Rightarrow> Inr (last (x # xs)))"
  by (simp add: Player2__current_uni_def py_index_last py_index_empty
      split: option.splits list.splits)

lemma simulate_move_copy_missing:
  "copy cls = None \<Longrightarrow>
     fst (Player2_simulate_move cls move_bot self uh mv) =
       (case Player2__current_uni self of
          Inl e \<Rightarrow> Inl e
        | Inr u \<Rightarrow> Inl (AttributeError ''copy''))"
  by (simp add: Player2_simulate_move_def universe_copy_def split: sum.splits)

lemma file_classes_have_no_copy:
  "copy StoppingPlayer = None" "copy SteppingPlayer = None" "copy InitialExceptionPlayer = None"
  by (simp_all add: StoppingPlayer_def SteppingPlayer_def InitialExceptionPlayer_def)

text \<open>
  A history is never the empty list: a new object has no attribute \<^verbatim>\<open>universe_states\<close>,
  \<^verbatim>\<open>_set_initial\<close> leaves one entry in it, and \<^verbatim>\<open>_get_move\<close> only appends.
\<close>

lemma history_never_empty:
  "universe_states (new_Player2 x) \<noteq> Some []"
  "universe_states (Player2__set_index self i) = universe_states self"
  "universe_states (fst (snd (Player2__set_initial cls self uh u gs))) \<noteq> Some []"
  "universe_states self \<noteq> Some [] \<Longrightarrow>
     universe_states (fst (snd (Player2__get_move cls self uh u gs))) \<noteq> Some []"
proof -
  show "universe_states (new_Player2 x) \<noteq> Some []" by (simp add: new_Player2_def)
  show "universe_states (Player2__set_index self i) = universe_states self"
    by (simp add: Player2__set_index_def)
  show "universe_states (fst (snd (Player2__set_initial cls self uh u gs))) \<noteq> Some []"
    by (simp add: Player2__set_initial_run Let_def split: option.splits)
  show "universe_states self \<noteq> Some [] \<Longrightarrow>
     universe_states (fst (snd (Player2__get_move cls self uh u gs))) \<noteq> Some []"
    by (auto simp: Player2__get_move_def Player2__store_universe_def
        Player2__store_universe_copy_def Player2__store_universe_ref_def universe_copy_def Let_def
        split: option.splits policy.splits prod.splits sum.splits)
qed

text \<open>
  C10. For a session of a class that defines no method \<^verbatim>\<open>copy\<close>,
  \<^verbatim>\<open>simulate_move\<close> raises \<open>AttributeError\<close> whatever the move and whatever the
  movement primitive would say: on \<^verbatim>\<open>self.copy()\<close>, or already on
  \<^verbatim>\<open>self.universe_states\<close> when the session has not been initialised. The history
  of a session is never empty (\<open>history_never_empty\<close>).
\<close>

theorem simulate_move_without_copy:
  "copy cls = None \<Longrightarrow> universe_states self \<noteq> Some [] \<Longrightarrow>
     fst (Player2_simulate_move cls move_bot self uh mv) =
       Inl (AttributeError (if universe_states self = None then ''universe_states'' else ''copy''))"
  by (simp add: simulate_move_copy_missing current_uni_cases split: option.splits list.splits)

text \<open>An initialised \<^verbatim>\<open>SteppingPlayer\<close> and a move that the primitive accepts.\<close>

theorem simulate_move_without_copy_witness:
  "fst (Player2_simulate_move SteppingPlayer (\<lambda>u i m. Inr (u, \<lparr>seed = None, gs_team_name = []\<rparr>))
         (fst (snd (Player2__set_initial SteppingPlayer
                      (Player2__set_index (SteppingPlayer_init (MovesStr ''>'')) 0)
                      [\<lparr>bots = [\<lparr>index = 0, current_pos = (1, 1), initial_pos = (1, 1)\<rparr>]\<rparr>]
                      0 \<lparr>seed = None, gs_team_name = []\<rparr>)))
         [\<lparr>bots = [\<lparr>index = 0, current_pos = (1, 1), initial_pos = (1, 1)\<rparr>]\<rparr>,
          \<lparr>bots = [\<lparr>index = 0, current_pos = (1, 1), initial_pos = (1, 1)\<rparr>]\<rparr>]
         east) = Inl (AttributeError ''copy'')"
  using simulate_move_without_copy
    [of SteppingPlayer
        "fst (snd (Player2__set_initial SteppingPlayer
                      (Player2__set_index (SteppingPlayer_init (MovesStr ''>'')) 0)
                      [\<lparr>bots = [\<lparr>index = 0, current_pos = (1, 1), initial_pos = (1, 1)\<rparr>]\<rparr>]
                      0 \<lparr>seed = None, gs_team_name = []\<rparr>))"
        "\<lambda>u i m. Inr (u, \<lparr>seed = None, gs_team_name = []\<rparr>)"
        "[\<lparr>bots = [\<lparr>index = 0, current_pos = (1, 1), initial_pos = (1, 1)\<rparr>]\<rparr>,
          \<lparr>bots = [\<lparr>index = 0, current_pos = (1, 1), initial_pos = (1, 1)\<rparr>]\<rparr>]" east]
  by (simp add: SteppingPlayer_def Player2__set_initial_run Player2__set_index_def
      SteppingPlayer_init_def new_Player2_def Let_def)

text \<open>
  C1 says that \<^verbatim>\<open>simulate_move\<close> returns a detached session whose history has one
  entry more. The code at a \<^verbatim>\<open>StoppingPlayer\<close> bound to bot 0 and initialised with a
  universe, simulating \<^verbatim>\<open>stop\<close>, a move that the primitive accepts: the session has
  one history entry, and the call returns no session, it raises \<open>AttributeError\<close> for
  \<^verbatim>\<open>copy\<close>.
\<close>

theorem simulate_move_returns_no_session:
  "(case Player2__set_initial StoppingPlayer (Player2__set_index (new_Player2 ()) 0)
           [\<lparr>bots = [\<lparr>index = 0, current_pos = (1, 1), initial_pos = (1, 1)\<rparr>]\<rparr>]
           0 \<lparr>seed = None, gs_team_name = []\<rparr> of
      (e, s, uh) \<Rightarrow>
        e = None \<and> universe_states s = Some [1] \<and>
        fst (Player2_simulate_move StoppingPlayer
               (\<lambda>u i m. Inr (u, \<lparr>seed = None, gs_team_name = []\<rparr>)) s uh stop) =
          Inl (AttributeError ''copy''))"
  by (simp add: Player2__set_initial_run Player2__set_index_def new_Player2_def Let_def
      StoppingPlayer_def Player2_set_initial_def Player2_simulate_move_def
      Player2__current_uni_def py_index_def universe_copy_def)

text \<open>
  C6 says that a move which the movement primitive rejects surfaces as the illegal-move
  error. The code at the same session with a primitive that rejects every move: the
  exception that reaches the caller is the \<open>AttributeError\<close> for \<^verbatim>\<open>copy\<close>, raised
  before the primitive is asked.
\<close>

theorem simulate_illegal_move_raises_attribute_error:
  "(case Player2__set_initial StoppingPlayer (Player2__set_index (new_Player2 ()) 0)
           [\<lparr>bots = [\<lparr>index = 0, current_pos = (1, 1), initial_pos = (1, 1)\<rparr>]\<rparr>]
           0 \<lparr>seed = None, gs_team_name = []\<rparr> of
      (e, s, uh) \<Rightarrow>
        e = None \<and>
        fst (Player2_simulate_move StoppingPlayer (\<lambda>u i m. Inl IllegalMoveException) s uh north) =
          Inl (AttributeError ''copy'') \<and>
        fst (Player2_simulate_move StoppingPlayer (\<lambda>u i m. Inl IllegalMoveException) s uh north) \<noteq>
          Inl IllegalMoveException)"
  by (simp add: Player2__set_initial_run Player2__set_index_def new_Player2_def Let_def
      StoppingPlayer_def Player2_set_initial_def Player2_simulate_move_def
      Player2__current_uni_def py_index_def universe_copy_def)

text \<open>
  What lines 487 to 490 do once \<^verbatim>\<open>self.copy()\<close> has returned, for a class whose
  \<^verbatim>\<open>copy\<close> returns a new object with the attributes of the old one: the exception of
  the primitive reaches the caller, or the new session has one more entry, the address of
  the moved copy of the current universe.
\<close>

lemma simulate_move_with_clone:
  "copy cls = Some (\<lambda>s. s) \<Longrightarrow> universe_states self = Some us \<Longrightarrow> us \<noteq> [] \<Longrightarrow>
   p_index self = Some i \<Longrightarrow> last us < length uh \<Longrightarrow>
     Player2_simulate_move cls move_bot self uh mv =
       (case move_bot (uh ! last us) i mv of
          Inl e \<Rightarrow> (Inl e, uh @ [uh ! last us])
        | Inr (u', g) \<Rightarrow>
            (Inr (self\<lparr>universe_states := Some (us @ [length uh]), p_current_state := Some g\<rparr>),
             uh @ [u']))"
  by (cases us)
     (auto simp: Player2_simulate_move_def current_uni_cases universe_copy_def
        split: sum.splits prod.splits)

section \<open>Binding bots to players\<close>

text \<open>
  C3. When the universe assigns more bots to the team than the team has players,
  \<^verbatim>\<open>set_initial\<close> raises \<open>ValueError\<close> before it binds anything: the team with its
  dictionary \<^verbatim>\<open>_bot_players\<close>, the players and the universes are as they were before
  the call.
\<close>

theorem set_initial_too_many_bots:
  "length (team_bots (uh ! u) team_id) > length (players self) \<Longrightarrow>
     SimpleTeam_set_initial cls_of foreign team_bots self ph fs uh team_id u gs =
       (Inl (ValueError (''Tried to set '' @ show_nat (length (team_bots (uh ! u) team_id))
                          @ '' bot_ids with only '' @ show_nat (length (players self))
                          @ '' Players.'')),
        self, ph, fs, uh)"
  by (simp add: SimpleTeam_set_initial_def Let_def)

text \<open>Two bots for a team of one player.\<close>

theorem set_initial_too_many_bots_witness:
  "SimpleTeam_set_initial (\<lambda>r. StoppingPlayer) (\<lambda>r i u g (f :: unit) h. (None, f, h))
      (\<lambda>u t. bots u)
      \<lparr>team_name = ''t'', players = [Ref 0], bot_players = Map.empty, remote_game = False\<rparr>
      [new_Player2 ()] ()
      [\<lparr>bots = [\<lparr>index = 0, current_pos = (1, 1), initial_pos = (1, 1)\<rparr>,
                \<lparr>index = 2, current_pos = (1, 2), initial_pos = (1, 2)\<rparr>]\<rparr>]
      0 0 \<lparr>seed = None, gs_team_name = []\<rparr> =
   (Inl (ValueError ''Tried to set 2 bot_ids with only 1 Players.''),
    \<lparr>team_name = ''t'', players = [Ref 0], bot_players = Map.empty, remote_game = False\<rparr>,
    [new_Player2 ()], (),
    [\<lparr>bots = [\<lparr>index = 0, current_pos = (1, 1), initial_pos = (1, 1)\<rparr>,
              \<lparr>index = 2, current_pos = (1, 2), initial_pos = (1, 2)\<rparr>]\<rparr>])"
  using set_initial_too_many_bots
    [where self = "\<lparr>team_name = ''t'', players = [Ref 0], bot_players = Map.empty,
                    remote_game = False\<rparr>"
       and team_bots = "\<lambda>u t. bots u"
       and uh = "[\<lparr>bots = [\<lparr>index = 0, current_pos = (1, 1), initial_pos = (1, 1)\<rparr>,
                         \<lparr>index = 2, current_pos = (1, 2), initial_pos = (1, 2)\<rparr>]\<rparr>]"
       and u = 0 and team_id = 0 and cls_of = "\<lambda>r. StoppingPlayer"
       and foreign = "\<lambda>r i u g (f :: unit) h. (None, f, h)"
       and ph = "[new_Player2 ()]" and fs = "()"
       and gs = "\<lparr>seed = None, gs_team_name = []\<rparr>"]
  by (simp add: show_nat.simps)













end
